theory Spec2Isabelle
  imports Main
begin

section \<open>Requests, responses and effects\<close>

text \<open>
  An Express request, as far as the middlewares read it: \<open>request.header(name)\<close> is a
  string or \<open>undefined\<close> (\<open>None\<close>), \<open>request.body\<close> is the decoded payload.
\<close>

record 'b request =
  header :: "string \<Rightarrow> string option"
  body :: 'b

text \<open>The request of the tests: its headers are looked up in a table.\<close>

definition mockRequest :: "(string \<times> string) list \<Rightarrow> 'b \<Rightarrow> 'b request" where
  "mockRequest headers b = \<lparr> header = map_of headers, body = b \<rparr>"

text \<open>
  The response kinds of \<open>utils/response\<close>, one constructor per kind. The three forbidden
  responses are constants of the source; the others are built from a title and a detail.
\<close>

datatype ('e, 'a) response =
    ResponseErrorForbiddenAnonymousUser
  | ResponseErrorForbiddenNoAuthorizationGroups
  | ResponseErrorForbiddenNotAuthorized
  | ResponseErrorValidation string string
  | ResponseErrorNotFound string string
  | ResponseErrorQuery string 'e
  | ResponseErrorInternal string
  | ResponseSuccessJson 'a

text \<open>The \<open>kind\<close> tag every response object carries.\<close>

fun kind :: "('e, 'a) response \<Rightarrow> string" where
  "kind ResponseErrorForbiddenAnonymousUser = ''IResponseErrorForbiddenAnonymousUser''"
| "kind ResponseErrorForbiddenNoAuthorizationGroups =
     ''IResponseErrorForbiddenNoAuthorizationGroups''"
| "kind ResponseErrorForbiddenNotAuthorized = ''IResponseErrorForbiddenNotAuthorized''"
| "kind (ResponseErrorValidation t d) = ''IResponseErrorValidation''"
| "kind (ResponseErrorNotFound t d) = ''IResponseErrorNotFound''"
| "kind (ResponseErrorQuery t e) = ''IResponseErrorQuery''"
| "kind (ResponseErrorInternal d) = ''IResponseErrorInternal''"
| "kind (ResponseSuccessJson a) = ''IResponseSuccessJson''"

text \<open>
  What a run does besides returning: the headers it reads and the collaborator calls it
  makes, in order.
\<close>

datatype event =
    HeaderRead string
  | FindOneByServiceId string

section \<open>JavaScript values the code relies on\<close>

text \<open>
  Modelled from the spec: \<open>toNonEmptyString\<close> of \<open>utils/strings\<close> is not among the
  sources. A header that is missing or empty gives no value.
\<close>

definition toNonEmptyString :: "string option \<Rightarrow> string option" where
  "toNonEmptyString s =
     (case s of None \<Rightarrow> None | Some v \<Rightarrow> if v = [] then None else Some v)"

text \<open>\<open>Option.filter\<close> of ts-option.\<close>

definition option_filter :: "('a \<Rightarrow> bool) \<Rightarrow> 'a option \<Rightarrow> 'a option" where
  "option_filter p m = (case m of None \<Rightarrow> None | Some v \<Rightarrow> if p v then Some v else None)"

text \<open>\<open>String.prototype.split\<close> with a separator of one character.\<close>

fun string_split :: "char \<Rightarrow> string \<Rightarrow> string list" where
  "string_split sep [] = [[]]"
| "string_split sep (c # cs) =
     (if c = sep then [] # string_split sep cs
      else (case string_split sep cs of
              [] \<Rightarrow> [[c]]
            | t # ts \<Rightarrow> (c # t) # ts))"

text \<open>
  A JavaScript \<open>Set\<close> keeps its members in insertion order, each once:
  a list without duplicates. \<open>new Set(xs)\<close> adds the elements of \<open>xs\<close> one by one,
  \<open>Array.from\<close> reads the list back, \<open>has\<close> is membership, \<open>size\<close> the length.
\<close>

definition Set_add :: "'a list \<Rightarrow> 'a \<Rightarrow> 'a list" where
  "Set_add s x = (if x \<in> set s then s else s @ [x])"

definition Set_from :: "'a list \<Rightarrow> 'a list" where
  "Set_from xs = foldl Set_add [] xs"

definition Set_has :: "'a list \<Rightarrow> 'a \<Rightarrow> bool" where
  "Set_has s x = (x \<in> set s)"

text \<open>\<open>Array.prototype.findIndex\<close>: the first index whose element passes, or \<open>-1\<close>.\<close>

fun findIndex :: "('a \<Rightarrow> bool) \<Rightarrow> 'a list \<Rightarrow> int" where
  "findIndex p [] = -1"
| "findIndex p (x # xs) =
     (if p x then 0 else (let i = findIndex p xs in if i = -1 then -1 else i + 1))"

section \<open>The identity middleware (\<open>azure_api_auth.ts\<close>)\<close>

datatype UserGroup =
    ApiLimitedProfileRead
  | ApiFullProfileRead
  | ApiProfileWrite
  | ApiServiceRead
  | ApiServiceWrite
  | ApiMessageRead
  | ApiMessageWrite
  | ApiLimitedMessageWrite
  | ApiMessageWriteDefaultAddress
  | ApiMessageList
  | ApiInfoRead
  | ApiDebugRead

text \<open>Every member of the enumeration is named by its own string value.\<close>

fun UserGroup_name :: "UserGroup \<Rightarrow> string" where
  "UserGroup_name ApiLimitedProfileRead = ''ApiLimitedProfileRead''"
| "UserGroup_name ApiFullProfileRead = ''ApiFullProfileRead''"
| "UserGroup_name ApiProfileWrite = ''ApiProfileWrite''"
| "UserGroup_name ApiServiceRead = ''ApiServiceRead''"
| "UserGroup_name ApiServiceWrite = ''ApiServiceWrite''"
| "UserGroup_name ApiMessageRead = ''ApiMessageRead''"
| "UserGroup_name ApiMessageWrite = ''ApiMessageWrite''"
| "UserGroup_name ApiLimitedMessageWrite = ''ApiLimitedMessageWrite''"
| "UserGroup_name ApiMessageWriteDefaultAddress = ''ApiMessageWriteDefaultAddress''"
| "UserGroup_name ApiMessageList = ''ApiMessageList''"
| "UserGroup_name ApiInfoRead = ''ApiInfoRead''"
| "UserGroup_name ApiDebugRead = ''ApiDebugRead''"

definition UserGroup_members :: "UserGroup list" where
  "UserGroup_members =
     [ApiLimitedProfileRead, ApiFullProfileRead, ApiProfileWrite, ApiServiceRead,
      ApiServiceWrite, ApiMessageRead, ApiMessageWrite, ApiLimitedMessageWrite,
      ApiMessageWriteDefaultAddress, ApiMessageList, ApiInfoRead, ApiDebugRead]"

text \<open>
  At run time the enumeration is a plain object whose own properties are the twelve
  members. \<open>UserGroup[name]\<close> is a property read, so a name that is not a member is looked
  up along the prototype chain, where \<open>Object.prototype\<close> supplies these properties
  (functions, and the prototype itself for \<open>__proto__\<close>): none of them is \<open>undefined\<close>.
\<close>

definition Object_prototype_properties :: "string list" where
  "Object_prototype_properties =
     [''constructor'', ''hasOwnProperty'', ''isPrototypeOf'', ''propertyIsEnumerable'',
      ''toLocaleString'', ''toString'', ''valueOf'', ''__proto__'',
      ''__defineGetter__'', ''__defineSetter__'', ''__lookupGetter__'',
      ''__lookupSetter__'']"

text \<open>
  The value of \<open>UserGroup[name]\<close> when it is defined: a member of the enumeration (its
  string value), or the inherited property of that name.
\<close>

datatype group_value =
    Member UserGroup
  | Inherited string

definition UserGroup_index :: "string \<Rightarrow> group_value option" where
  "UserGroup_index name =
     (case List.find (\<lambda>g. UserGroup_name g = name) UserGroup_members of
        Some g \<Rightarrow> Some (Member g)
      | None \<Rightarrow>
          if name \<in> set Object_prototype_properties then Some (Inherited name) else None)"

text \<open>\<open>option(v)\<close> of ts-option is empty exactly when \<open>v\<close> is \<open>undefined\<close> or \<open>null\<close>.\<close>

definition toUserGroup :: "string \<Rightarrow> group_value option" where
  "toUserGroup name = UserGroup_index name"

record IAzureApiAuthorization =
  groups :: "group_value list"
  userId :: string
  subscriptionId :: string

definition getGroupsFromHeader :: "string \<Rightarrow> group_value list" where
  "getGroupsFromHeader groupsHeader =
     Set_from
       (map the
          (filter (\<lambda>g. g \<noteq> None)
             (map (\<lambda>v. toUserGroup v) (string_split CHR '','' groupsHeader))))"

text \<open>
  The middleware returns its result together with the headers it read. Both identifying
  headers are read before either is tested; the groups header is read only afterwards.
\<close>

definition AzureApiAuthMiddleware ::
  "UserGroup list \<Rightarrow> 'b request \<Rightarrow>
     (('e, 'a) response + IAzureApiAuthorization) \<times> event list" where
  "AzureApiAuthMiddleware allowedGroups request =
     (let maybeUserId = toNonEmptyString (header request ''x-user-id'');
          maybeSubscriptionId = toNonEmptyString (header request ''x-subscription-id'');
          reads = [HeaderRead ''x-user-id'', HeaderRead ''x-subscription-id'']
      in
        if maybeUserId = None \<or> maybeSubscriptionId = None
        then (Inl ResponseErrorForbiddenAnonymousUser, reads)
        else
          let maybeGroupsHeader = toNonEmptyString (header request ''x-user-groups'');
              maybeGroups =
                option_filter (\<lambda>hs. length hs > 0)
                  (map_option getGroupsFromHeader maybeGroupsHeader);
              reads' = reads @ [HeaderRead ''x-user-groups'']
          in
            case maybeGroups of
              None \<Rightarrow> (Inl ResponseErrorForbiddenNoAuthorizationGroups, reads')
            | Some gs \<Rightarrow>
                let userHasOneGroup = (\<lambda>name. Set_has gs (Member name));
                    userHasAnyAllowedGroup = (findIndex userHasOneGroup allowedGroups > -1)
                in
                  if \<not> userHasAnyAllowedGroup
                  then (Inl ResponseErrorForbiddenNotAuthorized, reads')
                  else
                    (Inr \<lparr> groups = gs,
                           userId = the maybeUserId,
                           subscriptionId = the maybeSubscriptionId \<rparr>,
                     reads'))"

section \<open>The services controller (\<open>controllers/adm/services.ts\<close>)\<close>

text \<open>
  The public form of a service (\<open>api/definitions/Service\<close>, whose declaration is not among
  the sources): the fields the controller reads and writes. The two identifiers the
  store assigns are optional, a payload does not carry them. A request body is a value
  of this shape whose strings are still unvalidated.
\<close>

record Service =
  authorized_cidrs :: "string list"
  authorized_recipients :: "string list"
  department_name :: string
  organization_name :: string
  service_id :: string
  service_name :: string
  id_public :: "string option"
  version_public :: "nat option"

text \<open>
  The internal record (\<open>IService\<close>) and the stored one (\<open>IRetrievedService\<close>, the same
  fields plus the \<open>id\<close> and \<open>version\<close> of the store). The two set-valued fields are
  JavaScript sets.
\<close>

record IService =
  authorizedCIDRs :: "string list"
  authorizedRecipients :: "string list"
  departmentName :: string
  organizationName :: string
  serviceId :: string
  serviceName :: string

record IRetrievedService = IService +
  id_retrieved :: string
  version_retrieved :: nat

text \<open>
  Modelled from the spec: \<open>toAuthorizedCIDRs\<close> and \<open>toAuthorizedRecipients\<close> of
  \<open>models/service\<close> are not among the sources. Each builds the set-typed field of the
  record, a set of validated literals, from the array of the payload. The validators
  \<open>CIDR.is\<close> and \<open>FiscalCode.is\<close> are not among the sources either and are parameters.
\<close>

definition toAuthorizedCIDRs :: "(string \<Rightarrow> bool) \<Rightarrow> string list \<Rightarrow> string list" where
  "toAuthorizedCIDRs CIDR_is xs = Set_from (filter CIDR_is xs)"

definition toAuthorizedRecipients :: "(string \<Rightarrow> bool) \<Rightarrow> string list \<Rightarrow> string list" where
  "toAuthorizedRecipients FiscalCode_is xs = Set_from (filter FiscalCode_is xs)"

text \<open>
  Modelled from the spec: \<open>Service.is\<close>, the type guard of the public form. Every range
  is a valid CIDR literal, every recipient a valid fiscal code, and the four names are
  non-empty strings.
\<close>

definition Service_is :: "(string \<Rightarrow> bool) \<Rightarrow> (string \<Rightarrow> bool) \<Rightarrow> Service \<Rightarrow> bool" where
  "Service_is CIDR_is FiscalCode_is b \<longleftrightarrow>
     list_all CIDR_is (authorized_cidrs b) \<and>
     list_all FiscalCode_is (authorized_recipients b) \<and>
     department_name b \<noteq> [] \<and> organization_name b \<noteq> [] \<and>
     service_id b \<noteq> [] \<and> service_name b \<noteq> []"

definition retrievedServiceToPublic ::
  "(string \<Rightarrow> bool) \<Rightarrow> (string \<Rightarrow> bool) \<Rightarrow> IRetrievedService \<Rightarrow> Service" where
  "retrievedServiceToPublic CIDR_is FiscalCode_is retrievedService =
     \<lparr> authorized_cidrs = filter CIDR_is (authorizedCIDRs retrievedService),
       authorized_recipients = filter FiscalCode_is (authorizedRecipients retrievedService),
       department_name = departmentName retrievedService,
       organization_name = organizationName retrievedService,
       service_id = serviceId retrievedService,
       service_name = serviceName retrievedService,
       id_public = Some (id_retrieved retrievedService),
       version_public = Some (version_retrieved retrievedService) \<rparr>"

definition ServicePayloadMiddleware ::
  "(string \<Rightarrow> bool) \<Rightarrow> (string \<Rightarrow> bool) \<Rightarrow> Service request \<Rightarrow>
     ('e, 'a) response + IService" where
  "ServicePayloadMiddleware CIDR_is FiscalCode_is request =
     (let b = body request in
        if \<not> Service_is CIDR_is FiscalCode_is b
        then Inl (ResponseErrorValidation ''Invalid service payload''
                    ''Request body does not conform to the required service format'')
        else Inr \<lparr> authorizedCIDRs = toAuthorizedCIDRs CIDR_is (authorized_cidrs b),
                   authorizedRecipients =
                     toAuthorizedRecipients FiscalCode_is (authorized_recipients b),
                   departmentName = department_name b,
                   organizationName = organization_name b,
                   serviceId = service_id b,
                   serviceName = service_name b \<rparr>)"

text \<open>
  The persistence collaborator (\<open>ServiceModel\<close>), by the three operations the controller
  calls. Each is asynchronous I/O: it takes the state of the store and returns the new
  one with its result, a failure (\<open>Inl\<close>) or a value.
\<close>

record ('e, 'w) ServiceModel =
  findOneByServiceId :: "string \<Rightarrow> 'w \<Rightarrow> ('e + IRetrievedService option) \<times> 'w"
  create :: "IService \<Rightarrow> string \<Rightarrow> 'w \<Rightarrow> ('e + IRetrievedService) \<times> 'w"
  update ::
    "string \<Rightarrow> string \<Rightarrow> (IRetrievedService \<Rightarrow> IRetrievedService) \<Rightarrow> 'w \<Rightarrow>
       ('e + IRetrievedService option) \<times> 'w"

definition GetServiceHandler ::
  "(string \<Rightarrow> bool) \<Rightarrow> (string \<Rightarrow> bool) \<Rightarrow> ('e, 'w) ServiceModel \<Rightarrow>
     'auth \<Rightarrow> 'ip \<Rightarrow> 'attrs \<Rightarrow> string \<Rightarrow> 'w \<Rightarrow> ('e, Service) response \<times> 'w" where
  "GetServiceHandler CIDR_is FiscalCode_is serviceModel auth clientIp userAttributes
       sid w =
     (case findOneByServiceId serviceModel sid w of
        (Inr maybeService, w') \<Rightarrow>
          (case maybeService of
             None \<Rightarrow>
               (ResponseErrorNotFound ''Service not found''
                  ''The service you requested was not found in the system.'', w')
           | Some v \<Rightarrow>
               (ResponseSuccessJson (retrievedServiceToPublic CIDR_is FiscalCode_is v), w'))
      | (Inl e, w') \<Rightarrow> (ResponseErrorQuery ''Error while retrieving the service'' e, w'))"

section \<open>The middleware combinator (\<open>utils/request_middleware\<close>)\<close>

text \<open>
  A middleware is an asynchronous function from the request to a failure or a value;
  its effects are a change of the state \<open>'w\<close> of the world it runs in.
\<close>

type_synonym ('req, 'w, 'f, 'v) middleware = "'req \<Rightarrow> 'w \<Rightarrow> ('f + 'v) \<times> 'w"

text \<open>
  Modelled from the spec: \<open>withRequestMiddlewares\<close> is not among the sources. It invokes
  the middlewares in order, each in the world the one before left; it stops at the first
  failure and returns it; when all succeed it returns their values in order. The third
  component lists the result of every middleware that was invoked, in order of
  invocation.
\<close>

fun withRequestMiddlewares ::
  "('req, 'w, 'f, 'v) middleware list \<Rightarrow> 'req \<Rightarrow> 'w \<Rightarrow>
     ('f + 'v list) \<times> 'w \<times> ('f + 'v) list" where
  "withRequestMiddlewares [] request w = (Inr [], w, [])"
| "withRequestMiddlewares (m # ms) request w =
     (case m request w of
        (Inl f, w1) \<Rightarrow> (Inl f, w1, [Inl f])
      | (Inr v, w1) \<Rightarrow>
          (case withRequestMiddlewares ms request w1 of
             (Inl f, w2, tr) \<Rightarrow> (Inl f, w2, Inr v # tr)
           | (Inr vs, w2, tr) \<Rightarrow> (Inr (v # vs), w2, Inr v # tr)))"

section \<open>The source-IP gate (\<open>utils/source_ip_check\<close>)\<close>

text \<open>
  Modelled from the spec: \<open>checkSourceIpForHandler\<close> is not among the sources. The
  projector \<open>f\<close> gives the client IP and the record that bears the authorized ranges;
  \<open>contains\<close> is the membership test of an address in a range. The third component of
  the result tells whether the wrapped handler was invoked.
\<close>

definition checkSourceIpForHandler ::
  "('ip \<Rightarrow> string \<Rightarrow> bool) \<Rightarrow> ('args \<Rightarrow> 'w \<Rightarrow> ('e, 'a) response \<times> 'w) \<Rightarrow>
     ('args \<Rightarrow> 'ip \<times> 'z IService_scheme) \<Rightarrow> 'args \<Rightarrow> 'w \<Rightarrow>
     ('e, 'a) response \<times> 'w \<times> bool" where
  "checkSourceIpForHandler contains handler f args w =
     (case f args of
        (clientIp, entity) \<Rightarrow>
          if length (authorizedCIDRs entity) = 0 \<or>
             list_ex (contains clientIp) (authorizedCIDRs entity)
          then (case handler args w of (r, w') \<Rightarrow> (r, w', True))
          else (ResponseErrorForbiddenNotAuthorized, w, False))"

text \<open>
  Modelled from the spec: the membership test for IPv4, by prefix masking. An address
  \<open>a.b.c.d\<close> is a number of 32 bits; a range is an address with a prefix length
  (\<open>a.b.c.d/n\<close>) or a single address; an address is in the range when both agree on the
  first \<open>n\<close> bits.
\<close>

definition decimal :: "string \<Rightarrow> int option" where
  "decimal s =
     (if s = [] \<or> \<not> list_all (\<lambda>c. 48 \<le> (of_char c :: int) \<and> (of_char c :: int) \<le> 57) s
      then None
      else Some (foldl (\<lambda>a c. 10 * a + (of_char c - 48)) 0 s))"

definition ipv4_address :: "string \<Rightarrow> int option" where
  "ipv4_address s =
     (let parts = map decimal (string_split CHR ''.'' s) in
        if length parts = 4 \<and> list_all (\<lambda>p. case p of None \<Rightarrow> False | Some n \<Rightarrow> n \<le> 255) parts
        then Some (foldl (\<lambda>a p. 256 * a + the p) 0 parts)
        else None)"

definition ipv4_in_cidr :: "string \<Rightarrow> string \<Rightarrow> bool" where
  "ipv4_in_cidr ip cidr =
     (case string_split CHR ''/'' cidr of
        [base] \<Rightarrow>
          (case (ipv4_address ip, ipv4_address base) of
             (Some a, Some b) \<Rightarrow> a = b
           | _ \<Rightarrow> False)
      | [base, len] \<Rightarrow>
          (case (ipv4_address ip, ipv4_address base, decimal len) of
             (Some a, Some b, Some n) \<Rightarrow>
               n \<le> 32 \<and> a div 2 ^ nat (32 - n) = b div 2 ^ nat (32 - n)
           | _ \<Rightarrow> False)
      | _ \<Rightarrow> False)"

section \<open>The service-attributes middleware (\<open>utils/middlewares/azure_user_attributes\<close>)\<close>

record IAzureUserAttributes =
  email :: string
  service :: "IRetrievedService option"

text \<open>
  Modelled from the spec: \<open>AzureUserAttributesMiddleware\<close> is not among the sources, only
  its tests are. It validates the email header, then the subscription id header, then
  asks the collaborator for the service of that subscription. The tests also refuse an
  email that is not well formed: \<open>isEmail\<close> is that check, a parameter. The result comes
  with the world the collaborator left and with the header reads and collaborator calls
  made, in order.
\<close>

definition AzureUserAttributesMiddleware ::
  "(string \<Rightarrow> bool) \<Rightarrow> ('e, 'w) ServiceModel \<Rightarrow> 'b request \<Rightarrow> 'w \<Rightarrow>
     (('e, 'a) response + IAzureUserAttributes) \<times> 'w \<times> event list" where
  "AzureUserAttributesMiddleware isEmail serviceModel request w =
     (case option_filter isEmail (toNonEmptyString (header request ''x-user-email'')) of
        None \<Rightarrow>
          (Inl (ResponseErrorInternal ''Missing, empty or invalid x-user-email header''),
           w, [HeaderRead ''x-user-email''])
      | Some userEmail \<Rightarrow>
          (case toNonEmptyString (header request ''x-subscription-id'') of
             None \<Rightarrow>
               (Inl (ResponseErrorInternal ''Missing or empty x-subscription-id header''),
                w, [HeaderRead ''x-user-email'', HeaderRead ''x-subscription-id''])
           | Some sid \<Rightarrow>
               (let calls = [HeaderRead ''x-user-email'', HeaderRead ''x-subscription-id'',
                             FindOneByServiceId sid]
                in
                  case findOneByServiceId serviceModel sid w of
                    (Inl e, w') \<Rightarrow>
                      (Inl (ResponseErrorQuery ''Error while retrieving the service'' e),
                       w', calls)
                  | (Inr maybeService, w') \<Rightarrow>
                      (Inr \<lparr> email = userEmail,
                             service =
                               map_option
                                 (\<lambda>s. s\<lparr> authorizedRecipients :=
                                           Set_from (authorizedRecipients s) \<rparr>)
                                 maybeService \<rparr>,
                       w', calls))))"

section \<open>Fixtures of the tests\<close>

text \<open>
  The service of \<open>azure_user_attributes.test.ts\<close>, and its mocked collaborators: one
  finds no record, one fails with \<open>"error"\<close>. The state of the world is the number of
  lookups made so far. The mocks implement \<open>findOneByServiceId\<close> only; the two writing
  operations are given as failing.
\<close>

definition aService :: IService where
  "aService =
     \<lparr> authorizedCIDRs = toAuthorizedCIDRs (\<lambda>c. True) [],
       authorizedRecipients = Set_from [],
       departmentName = ''MyDept'', organizationName = ''MyService'',
       serviceId = ''serviceId'', serviceName = ''MyService'' \<rparr>"

definition notFoundModel :: "(string, nat) ServiceModel" where
  "notFoundModel =
     \<lparr> findOneByServiceId = (\<lambda>sid w. (Inr None, Suc w)),
       create = (\<lambda>p sid w. (Inl ''error'', w)),
       update = (\<lambda>i sid f w. (Inl ''error'', w)) \<rparr>"

definition failingModel :: "(string, nat) ServiceModel" where
  "failingModel =
     \<lparr> findOneByServiceId = (\<lambda>sid w. (Inl ''error'', Suc w)),
       create = (\<lambda>p sid w. (Inl ''error'', w)),
       update = (\<lambda>i sid f w. (Inl ''error'', w)) \<rparr>"

text \<open>A payload that lists one range twice.\<close>

definition aPayload :: Service where
  "aPayload =
     \<lparr> authorized_cidrs = [''10.0.0.0/24'', ''192.168.1.1'', ''10.0.0.0/24''],
       authorized_recipients = [''AAABBB01C02D345E''],
       department_name = ''MyDept'', organization_name = ''MyService'',
       service_id = ''serviceId'', service_name = ''MyService'',
       id_public = None, version_public = None \<rparr>"

text \<open>A handler that answers and counts its invocation in the state of the world.\<close>

definition countingHandler :: "'args \<Rightarrow> nat \<Rightarrow> (unit, string) response \<times> nat" where
  "countingHandler args w = (ResponseSuccessJson ''handled'', Suc w)"

section \<open>Facts about the JavaScript values\<close>

lemma toNonEmptyString_None_iff:
  "toNonEmptyString s = None \<longleftrightarrow> s = None \<or> s = Some []"
  by (simp add: toNonEmptyString_def split: option.splits)

lemma toNonEmptyString_Some_iff:
  "toNonEmptyString s = Some v \<longleftrightarrow> s = Some v \<and> v \<noteq> []"
  by (auto simp: toNonEmptyString_def split: option.splits)

lemma set_foldl_Set_add: "set (foldl Set_add acc xs) = set acc \<union> set xs"
  by (induction xs arbitrary: acc) (auto simp: Set_add_def)

lemma set_Set_from: "set (Set_from xs) = set xs"
  by (simp add: Set_from_def set_foldl_Set_add)

lemma distinct_foldl_Set_add: "distinct acc \<Longrightarrow> distinct (foldl Set_add acc xs)"
  by (induction xs arbitrary: acc) (auto simp: Set_add_def)

lemma distinct_Set_from: "distinct (Set_from xs)"
  by (simp add: Set_from_def distinct_foldl_Set_add)

lemma Set_from_empty_iff: "Set_from xs = [] \<longleftrightarrow> xs = []"
proof -
  have "Set_from xs = [] \<longleftrightarrow> set (Set_from xs) = {}" by simp
  then show ?thesis by (simp add: set_Set_from)
qed

lemma findIndex_lower: "- 1 \<le> findIndex p xs"
  by (induction xs) (auto simp: Let_def)

lemma findIndex_found: "findIndex p xs > - 1 \<longleftrightarrow> (\<exists>x \<in> set xs. p x)"
proof (induction xs)
  case Nil
  then show ?case by simp
next
  case (Cons x xs)
  have "- 1 \<le> findIndex p xs" by (rule findIndex_lower)
  with Cons show ?case by (auto simp: Let_def)
qed

section \<open>The combinator stops at the first failure\<close>

lemma withRequestMiddlewares_append:
  "withRequestMiddlewares pre request w = (Inr vs, w1, tr) \<Longrightarrow>
   withRequestMiddlewares (pre @ rest) request w =
     (case withRequestMiddlewares rest request w1 of
        (Inl f, w2, tr') \<Rightarrow> (Inl f, w2, tr @ tr')
      | (Inr vs', w2, tr') \<Rightarrow> (Inr (vs @ vs'), w2, tr @ tr'))"
proof (induction pre arbitrary: w vs tr)
  case Nil
  then show ?case by (auto split: prod.splits sum.splits)
next
  case (Cons m pre)
  then show ?case
    by (auto split: prod.splits sum.splits)
qed

lemma withRequestMiddlewares_success:
  "withRequestMiddlewares ms request w = (Inr vs, w', tr) \<Longrightarrow>
   length vs = length ms \<and> tr = map Inr vs"
  by (induction ms arbitrary: w vs tr) (auto split: prod.splits sum.splits)

lemma withRequestMiddlewares_failure:
  "withRequestMiddlewares ms request w = (Inl f, w', tr) \<Longrightarrow>
   tr \<noteq> [] \<and> length tr \<le> length ms \<and> last tr = Inl f \<and>
   (\<forall>r \<in> set (butlast tr). \<exists>v. r = Inr v)"
  by (induction ms arbitrary: w tr) (auto split: prod.splits sum.splits)

text \<open>
  C1. When the middlewares before \<open>m\<close> all succeed and \<open>m\<close> fails with \<open>f\<close>, the combinator
  returns exactly \<open>f\<close>, in the world \<open>m\<close> left, and the middlewares invoked are those up
  to \<open>m\<close>: whatever comes after \<open>m\<close> in the list is not invoked. When one more
  middleware succeeds after a run of successes, its value is appended to theirs, so that
  the values of a list that succeeds throughout come in the order of the list. In any
  run, a failure returned is the result of the last middleware invoked, every one
  invoked before it succeeded, and a success returns one value for each middleware.
\<close>

theorem withRequestMiddlewares_short_circuit:
  "(withRequestMiddlewares pre request w = (Inr vs, w1, tr) \<and> m request w1 = (Inl f, w2) \<longrightarrow>
      withRequestMiddlewares (pre @ m # post) request w = (Inl f, w2, tr @ [Inl f])) \<and>
   (withRequestMiddlewares pre request w = (Inr vs, w1, tr) \<and> m request w1 = (Inr v, w2) \<longrightarrow>
      withRequestMiddlewares (pre @ [m]) request w = (Inr (vs @ [v]), w2, tr @ [Inr v])) \<and>
   withRequestMiddlewares [] request w = (Inr [], w, []) \<and>
   (withRequestMiddlewares ms request w = (Inl f', w', tr') \<longrightarrow>
      tr' \<noteq> [] \<and> length tr' \<le> length ms \<and> last tr' = Inl f' \<and>
      (\<forall>r \<in> set (butlast tr'). \<exists>v. r = Inr v)) \<and>
   (withRequestMiddlewares ms request w = (Inr vs', w', tr') \<longrightarrow>
      length vs' = length ms \<and> tr' = map Inr vs')"
proof (intro conjI impI)
  assume "withRequestMiddlewares pre request w = (Inr vs, w1, tr) \<and> m request w1 = (Inl f, w2)"
  then show "withRequestMiddlewares (pre @ m # post) request w = (Inl f, w2, tr @ [Inl f])"
    by (simp add: withRequestMiddlewares_append [of pre request w vs w1 tr])
next
  assume "withRequestMiddlewares pre request w = (Inr vs, w1, tr) \<and> m request w1 = (Inr v, w2)"
  then show "withRequestMiddlewares (pre @ [m]) request w = (Inr (vs @ [v]), w2, tr @ [Inr v])"
    by (simp add: withRequestMiddlewares_append [of pre request w vs w1 tr])
next
  show "withRequestMiddlewares [] request w = (Inr [], w, [])" by simp
next
  assume "withRequestMiddlewares ms request w = (Inl f', w', tr')"
  then have "tr' \<noteq> [] \<and> length tr' \<le> length ms \<and> last tr' = Inl f' \<and>
      (\<forall>r \<in> set (butlast tr'). \<exists>v. r = Inr v)"
    by (rule withRequestMiddlewares_failure)
  then show "tr' \<noteq> []" and "length tr' \<le> length ms" and "last tr' = Inl f'"
    and "\<forall>r \<in> set (butlast tr'). \<exists>v. r = Inr v"
    by simp_all
next
  assume "withRequestMiddlewares ms request w = (Inr vs', w', tr')"
  then have "length vs' = length ms \<and> tr' = map Inr vs'"
    by (rule withRequestMiddlewares_success)
  then show "length vs' = length ms" and "tr' = map Inr vs'" by simp_all
qed

theorem withRequestMiddlewares_short_circuit_witness:
  "withRequestMiddlewares
     [\<lambda>r w. (Inr (1::nat), w + 1), \<lambda>r w. (Inl ''failure'', w + 10), \<lambda>r w. (Inr 3, w + 100)]
     () (0::nat) = (Inl ''failure'', 11, [Inr 1, Inl ''failure'']) \<and>
   withRequestMiddlewares
     [\<lambda>r w. (Inr (1::nat), w + 1), \<lambda>r w. (Inr 2 :: string + nat, w + 10)]
     () (0::nat) = (Inr [1, 2], 11, [Inr 1, Inr 2])"
  using withRequestMiddlewares_short_circuit
          [of "[\<lambda>r w. (Inr (1::nat), w + 1)]" "()" "0::nat" "[1]" 1 "[Inr 1]"
              "\<lambda>r w. (Inl ''failure'', w + 10)" "''failure''" 11
              "[\<lambda>r w. (Inr 3, w + 100)]"]
        withRequestMiddlewares_short_circuit
          [of "[\<lambda>r w. (Inr (1::nat), w + 1)]" "()" "0::nat" "[1]" 1 "[Inr 1 :: string + nat]"
              "\<lambda>r w. (Inr 2 :: string + nat, w + 10)" _ 11 _ 2]
  by simp

section \<open>The source-IP gate\<close>

lemma ipv4_in_cidr_inside: "ipv4_in_cidr ''10.0.0.5'' ''10.0.0.0/24''"
  by (simp add: ipv4_in_cidr_def ipv4_address_def decimal_def)

lemma ipv4_in_cidr_outside: "\<not> ipv4_in_cidr ''10.0.1.5'' ''10.0.0.0/24''"
  by (simp add: ipv4_in_cidr_def ipv4_address_def decimal_def)

text \<open>
  C2. For the client IP and the service that the projector resolves, the gate invokes
  the wrapped handler and returns its response when the service has no authorized range,
  or when the client IP lies in at least one of its ranges; otherwise it returns
  \<open>ForbiddenNotAuthorized\<close>, the handler is not invoked and the world is unchanged.
\<close>

theorem checkSourceIpForHandler_gate:
  "f args = (clientIp, entity) \<Longrightarrow>
   checkSourceIpForHandler contains handler f args w =
     (if authorizedCIDRs entity = [] \<or>
         (\<exists>c \<in> set (authorizedCIDRs entity). contains clientIp c)
      then (fst (handler args w), snd (handler args w), True)
      else (ResponseErrorForbiddenNotAuthorized, w, False))"
  by (auto simp: checkSourceIpForHandler_def list_ex_iff split: prod.splits)

theorem checkSourceIpForHandler_gate_witness:
  "checkSourceIpForHandler ipv4_in_cidr countingHandler (\<lambda>args. args)
      (''10.0.1.5'', aService\<lparr> authorizedCIDRs := [''10.0.0.0/24''] \<rparr>) 0 =
     (ResponseErrorForbiddenNotAuthorized, 0, False) \<and>
   checkSourceIpForHandler ipv4_in_cidr countingHandler (\<lambda>args. args)
      (''10.0.0.5'', aService\<lparr> authorizedCIDRs := [''10.0.0.0/24''] \<rparr>) 0 =
     (ResponseSuccessJson ''handled'', 1, True) \<and>
   checkSourceIpForHandler ipv4_in_cidr countingHandler (\<lambda>args. args)
      (''10.0.1.5'', aService) 0 =
     (ResponseSuccessJson ''handled'', 1, True)"
  using checkSourceIpForHandler_gate
          [of "\<lambda>args. args" "(''10.0.1.5'', aService\<lparr> authorizedCIDRs := [''10.0.0.0/24''] \<rparr>)"
              "''10.0.1.5''" "aService\<lparr> authorizedCIDRs := [''10.0.0.0/24''] \<rparr>"
              ipv4_in_cidr countingHandler 0]
        checkSourceIpForHandler_gate
          [of "\<lambda>args. args" "(''10.0.0.5'', aService\<lparr> authorizedCIDRs := [''10.0.0.0/24''] \<rparr>)"
              "''10.0.0.5''" "aService\<lparr> authorizedCIDRs := [''10.0.0.0/24''] \<rparr>"
              ipv4_in_cidr countingHandler 0]
        checkSourceIpForHandler_gate
          [of "\<lambda>args. args" "(''10.0.1.5'', aService)" "''10.0.1.5''" aService
              ipv4_in_cidr countingHandler 0]
  by (simp add: aService_def countingHandler_def toAuthorizedCIDRs_def Set_from_def
        ipv4_in_cidr_inside ipv4_in_cidr_outside)

section \<open>The identity middleware\<close>

lemma UserGroup_members_all: "g \<in> set UserGroup_members"
  by (cases g) (simp_all add: UserGroup_members_def)

lemma UserGroup_index_None_iff:
  "UserGroup_index name = None \<longleftrightarrow>
     (\<forall>g. UserGroup_name g \<noteq> name) \<and> name \<notin> set Object_prototype_properties"
proof -
  have "List.find (\<lambda>g. UserGroup_name g = name) UserGroup_members = None \<longleftrightarrow>
          (\<forall>g. UserGroup_name g \<noteq> name)"
    using UserGroup_members_all by (auto simp: find_None_iff)
  then show ?thesis
    by (auto simp: UserGroup_index_def split: option.splits)
qed

lemma getGroupsFromHeader_empty_iff:
  "getGroupsFromHeader h = [] \<longleftrightarrow>
     (\<forall>t \<in> set (string_split CHR '','' h). toUserGroup t = None)"
  by (auto simp: getGroupsFromHeader_def Set_from_empty_iff filter_empty_conv)

lemma getGroupsFromHeader_toString:
  "getGroupsFromHeader ''toString'' = [Inherited ''toString'']"
  by (simp add: getGroupsFromHeader_def toUserGroup_def UserGroup_index_def
        UserGroup_members_def Object_prototype_properties_def Set_from_def Set_add_def)

lemma getGroupsFromHeader_ApiServiceRead_toString:
  "getGroupsFromHeader ''ApiServiceRead,toString'' =
     [Member ApiServiceRead, Inherited ''toString'']"
  by (simp add: getGroupsFromHeader_def toUserGroup_def UserGroup_index_def
        UserGroup_members_def Object_prototype_properties_def Set_from_def Set_add_def)

text \<open>
  What the code does for a caller without groups: with both identifying headers present,
  a groups header that is absent, empty, or made only of tokens that are neither names
  of the enumeration nor names of properties every object inherits, gives
  \<open>ForbiddenNoAuthorizationGroups\<close>.
\<close>

lemma AzureApiAuthMiddleware_no_groups:
  assumes "header request ''x-user-id'' = Some u" and "u \<noteq> []"
    and "header request ''x-subscription-id'' = Some s" and "s \<noteq> []"
    and "header request ''x-user-groups'' = None \<or> header request ''x-user-groups'' = Some [] \<or>
         (\<exists>h. header request ''x-user-groups'' = Some h \<and>
              (\<forall>t \<in> set (string_split CHR '','' h).
                 (\<forall>g. UserGroup_name g \<noteq> t) \<and> t \<notin> set Object_prototype_properties))"
  shows "AzureApiAuthMiddleware allowedGroups request =
           (Inl ResponseErrorForbiddenNoAuthorizationGroups,
            [HeaderRead ''x-user-id'', HeaderRead ''x-subscription-id'',
             HeaderRead ''x-user-groups''])"
proof -
  have "option_filter (\<lambda>hs. length hs > 0)
          (map_option getGroupsFromHeader
             (toNonEmptyString (header request ''x-user-groups''))) = None"
    using assms(5)
    by (auto simp: option_filter_def toNonEmptyString_def getGroupsFromHeader_empty_iff
          toUserGroup_def UserGroup_index_None_iff split: option.splits)
  then show ?thesis
    using assms(1-4)
    by (simp add: AzureApiAuthMiddleware_def Let_def toNonEmptyString_def)
qed

text \<open>
  C3. The claim fails on a token that names an inherited property. \<open>toString\<close> is not the
  name of any member of the enumeration, yet a caller whose groups header is \<open>toString\<close>
  is answered \<open>ForbiddenNotAuthorized\<close>, not \<open>ForbiddenNoAuthorizationGroups\<close>; and for
  the header \<open>ApiServiceRead,toString\<close> the identity built carries the inherited property
  in its group set, next to the one recognized group.
\<close>

theorem AzureApiAuthMiddleware_inherited_property_token:
  "(\<forall>g. UserGroup_name g \<noteq> ''toString'') \<and>
   fst (AzureApiAuthMiddleware [ApiServiceRead]
      (mockRequest [(''x-user-id'', ''u''), (''x-subscription-id'', ''s''),
                    (''x-user-groups'', ''toString'')] ())
     :: ((unit, unit) response + IAzureApiAuthorization) \<times> event list) =
     Inl ResponseErrorForbiddenNotAuthorized \<and>
   fst (AzureApiAuthMiddleware [ApiServiceRead]
      (mockRequest [(''x-user-id'', ''u''), (''x-subscription-id'', ''s''),
                    (''x-user-groups'', ''ApiServiceRead,toString'')] ())
     :: ((unit, unit) response + IAzureApiAuthorization) \<times> event list) =
     Inr \<lparr> groups = [Member ApiServiceRead, Inherited ''toString''],
           userId = ''u'', subscriptionId = ''s'' \<rparr>"
proof -
  have "UserGroup_name g \<noteq> ''toString''" for g
    by (cases g) simp_all
  then show ?thesis
    by (simp add: AzureApiAuthMiddleware_def mockRequest_def toNonEmptyString_def
          option_filter_def getGroupsFromHeader_toString
          getGroupsFromHeader_ApiServiceRead_toString Set_has_def)
qed

text \<open>
  C4. For a request that carries both identifying headers and whose groups header parses
  to a non-empty set, the middleware fails with \<open>ForbiddenNotAuthorized\<close> exactly when
  no parsed group is among the required ones; otherwise it succeeds, and the identity
  carries the whole parsed set together with the two identifiers.
\<close>

theorem AzureApiAuthMiddleware_authorization:
  assumes "header request ''x-user-id'' = Some u" and "u \<noteq> []"
    and "header request ''x-subscription-id'' = Some s" and "s \<noteq> []"
    and "header request ''x-user-groups'' = Some h" and "h \<noteq> []"
    and "getGroupsFromHeader h \<noteq> []"
  shows "(fst (AzureApiAuthMiddleware allowedGroups request
                 :: (('e, 'a) response + IAzureApiAuthorization) \<times> event list) =
            Inl ResponseErrorForbiddenNotAuthorized \<longleftrightarrow>
          set (getGroupsFromHeader h) \<inter> Member ` set allowedGroups = {}) \<and>
         (set (getGroupsFromHeader h) \<inter> Member ` set allowedGroups \<noteq> {} \<longrightarrow>
          fst (AzureApiAuthMiddleware allowedGroups request
                 :: (('e, 'a) response + IAzureApiAuthorization) \<times> event list) =
            Inr \<lparr> groups = getGroupsFromHeader h, userId = u, subscriptionId = s \<rparr>)"
proof -
  have found:
    "findIndex (\<lambda>name. Set_has (getGroupsFromHeader h) (Member name)) allowedGroups > - 1
       \<longleftrightarrow> set (getGroupsFromHeader h) \<inter> Member ` set allowedGroups \<noteq> {}"
    by (auto simp: findIndex_found Set_has_def)
  show ?thesis
    using assms found
    by (simp add: AzureApiAuthMiddleware_def Let_def toNonEmptyString_def option_filter_def)
qed

lemma getGroupsFromHeader_read_write:
  "getGroupsFromHeader ''ApiServiceRead,ApiServiceWrite'' =
     [Member ApiServiceRead, Member ApiServiceWrite]"
  by (simp add: getGroupsFromHeader_def toUserGroup_def UserGroup_index_def
        UserGroup_members_def Object_prototype_properties_def Set_from_def Set_add_def)

theorem AzureApiAuthMiddleware_authorization_witness:
  "fst (AzureApiAuthMiddleware [ApiServiceRead]
      (mockRequest [(''x-user-id'', ''u''), (''x-subscription-id'', ''s''),
                    (''x-user-groups'', ''ApiServiceRead,ApiServiceWrite'')] ())
     :: ((unit, unit) response + IAzureApiAuthorization) \<times> event list) =
     Inr \<lparr> groups = [Member ApiServiceRead, Member ApiServiceWrite],
           userId = ''u'', subscriptionId = ''s'' \<rparr> \<and>
   fst (AzureApiAuthMiddleware [ApiMessageRead]
      (mockRequest [(''x-user-id'', ''u''), (''x-subscription-id'', ''s''),
                    (''x-user-groups'', ''ApiServiceRead,ApiServiceWrite'')] ())
     :: ((unit, unit) response + IAzureApiAuthorization) \<times> event list) =
     Inl ResponseErrorForbiddenNotAuthorized"
  using AzureApiAuthMiddleware_authorization
          [where ?'e = unit and ?'a = unit,
           of "mockRequest [(''x-user-id'', ''u''), (''x-subscription-id'', ''s''),
                    (''x-user-groups'', ''ApiServiceRead,ApiServiceWrite'')] ()"
              "''u''" "''s''" "''ApiServiceRead,ApiServiceWrite''" "[ApiServiceRead]"]
        AzureApiAuthMiddleware_authorization
          [where ?'e = unit and ?'a = unit,
           of "mockRequest [(''x-user-id'', ''u''), (''x-subscription-id'', ''s''),
                    (''x-user-groups'', ''ApiServiceRead,ApiServiceWrite'')] ()"
              "''u''" "''s''" "''ApiServiceRead,ApiServiceWrite''" "[ApiMessageRead]"]
  by (simp add: mockRequest_def getGroupsFromHeader_read_write)

text \<open>
  C5. When the \<open>x-user-id\<close> header or the \<open>x-subscription-id\<close> header is missing or empty,
  the middleware fails with \<open>ForbiddenAnonymousUser\<close> after reading these two headers
  only: the \<open>x-user-groups\<close> header is not read. When both are present and non-empty,
  the result is never \<open>ForbiddenAnonymousUser\<close>.
\<close>

theorem AzureApiAuthMiddleware_anonymous:
  "((header request ''x-user-id'' = None \<or> header request ''x-user-id'' = Some [] \<or>
     header request ''x-subscription-id'' = None \<or>
     header request ''x-subscription-id'' = Some []) \<longrightarrow>
      (AzureApiAuthMiddleware allowedGroups request
         :: (('e, 'a) response + IAzureApiAuthorization) \<times> event list) =
        (Inl ResponseErrorForbiddenAnonymousUser,
         [HeaderRead ''x-user-id'', HeaderRead ''x-subscription-id''])) \<and>
   ((\<exists>u s. header request ''x-user-id'' = Some u \<and> u \<noteq> [] \<and>
           header request ''x-subscription-id'' = Some s \<and> s \<noteq> []) \<longrightarrow>
      fst (AzureApiAuthMiddleware allowedGroups request
             :: (('e, 'a) response + IAzureApiAuthorization) \<times> event list) \<noteq>
        Inl ResponseErrorForbiddenAnonymousUser)"
  by (auto simp: AzureApiAuthMiddleware_def Let_def toNonEmptyString_def
           split: option.splits)

theorem AzureApiAuthMiddleware_anonymous_witness:
  "(AzureApiAuthMiddleware [ApiServiceRead]
      (mockRequest [(''x-subscription-id'', ''s''), (''x-user-groups'', ''ApiServiceRead'')] ())
     :: ((unit, unit) response + IAzureApiAuthorization) \<times> event list) =
     (Inl ResponseErrorForbiddenAnonymousUser,
      [HeaderRead ''x-user-id'', HeaderRead ''x-subscription-id'']) \<and>
   fst (AzureApiAuthMiddleware [ApiServiceRead]
      (mockRequest [(''x-user-id'', ''u''), (''x-subscription-id'', ''s'')] ())
     :: ((unit, unit) response + IAzureApiAuthorization) \<times> event list) \<noteq>
     Inl ResponseErrorForbiddenAnonymousUser"
  using AzureApiAuthMiddleware_anonymous
          [where ?'e = unit and ?'a = unit,
           of "mockRequest [(''x-subscription-id'', ''s''), (''x-user-groups'', ''ApiServiceRead'')] ()"
              "[ApiServiceRead]"]
        AzureApiAuthMiddleware_anonymous
          [where ?'e = unit and ?'a = unit,
           of "mockRequest [(''x-user-id'', ''u''), (''x-subscription-id'', ''s'')] ()"
              "[ApiServiceRead]"]
  by (simp add: mockRequest_def)

text \<open>
  C9. Two requests that agree on the \<open>x-user-id\<close>, \<open>x-subscription-id\<close> and
  \<open>x-user-groups\<close> headers get the same result for the same set of required groups,
  whatever else they carry and in whatever order the required groups are listed: the
  same failure, or equal identities. A run reads these three headers and nothing else,
  and changes nothing.
\<close>

theorem AzureApiAuthMiddleware_deterministic:
  assumes "header r1 ''x-user-id'' = header r2 ''x-user-id''"
    and "header r1 ''x-subscription-id'' = header r2 ''x-subscription-id''"
    and "header r1 ''x-user-groups'' = header r2 ''x-user-groups''"
    and "set allowedGroups1 = set allowedGroups2"
  shows "(AzureApiAuthMiddleware allowedGroups1 r1
            :: (('e, 'a) response + IAzureApiAuthorization) \<times> event list) =
           AzureApiAuthMiddleware allowedGroups2 r2 \<and>
         set (snd (AzureApiAuthMiddleware allowedGroups1 r1
                     :: (('e, 'a) response + IAzureApiAuthorization) \<times> event list)) \<subseteq>
           {HeaderRead ''x-user-id'', HeaderRead ''x-subscription-id'',
            HeaderRead ''x-user-groups''}"
  using assms
  by (auto simp: AzureApiAuthMiddleware_def Let_def findIndex_found split: option.splits)

theorem AzureApiAuthMiddleware_deterministic_witness:
  "(AzureApiAuthMiddleware [ApiServiceRead, ApiServiceWrite]
      (mockRequest [(''x-user-id'', ''u''), (''x-subscription-id'', ''s''),
                    (''x-user-groups'', ''ApiServiceRead''), (''x-user-email'', ''a@b.c'')] ())
     :: ((unit, unit) response + IAzureApiAuthorization) \<times> event list) =
   AzureApiAuthMiddleware [ApiServiceWrite, ApiServiceRead]
      (mockRequest [(''x-user-groups'', ''ApiServiceRead''), (''x-subscription-id'', ''s''),
                    (''x-user-id'', ''u'')] aPayload)"
  using AzureApiAuthMiddleware_deterministic
          [where ?'e = unit and ?'a = unit,
           of "mockRequest [(''x-user-id'', ''u''), (''x-subscription-id'', ''s''),
                    (''x-user-groups'', ''ApiServiceRead''), (''x-user-email'', ''a@b.c'')] ()"
              "mockRequest [(''x-user-groups'', ''ApiServiceRead''), (''x-subscription-id'', ''s''),
                    (''x-user-id'', ''u'')] aPayload"
              "[ApiServiceRead, ApiServiceWrite]" "[ApiServiceWrite, ApiServiceRead]"]
  by (auto simp add: mockRequest_def)

section \<open>The service-attributes middleware\<close>

text \<open>
  C6. In every run the first thing read is the \<open>x-user-email\<close> header, once; the
  \<open>x-subscription-id\<close> header is read after it, if at all. When \<open>x-user-email\<close> is
  absent or empty the middleware fails with \<open>ErrorInternal\<close> having read that header
  only: the collaborator is not invoked and the world is unchanged.
\<close>

theorem AzureUserAttributesMiddleware_email_first:
  "AzureUserAttributesMiddleware isEmail serviceModel request w = (res, w', evs) \<Longrightarrow>
   (\<exists>rest. evs = HeaderRead ''x-user-email'' # rest \<and>
           HeaderRead ''x-user-email'' \<notin> set rest) \<and>
   (header request ''x-user-email'' = None \<or> header request ''x-user-email'' = Some [] \<longrightarrow>
      (\<exists>d. res = Inl (ResponseErrorInternal d)) \<and> w' = w \<and>
      evs = [HeaderRead ''x-user-email''])"
  by (auto simp: AzureUserAttributesMiddleware_def toNonEmptyString_def option_filter_def
        Let_def split: option.splits if_splits prod.splits sum.splits)

theorem AzureUserAttributesMiddleware_email_first_witness:
  "\<exists>d. (AzureUserAttributesMiddleware (\<lambda>e. True) notFoundModel
      (mockRequest [(''x-user-email'', ''''), (''x-subscription-id'', ''MySubscriptionId'')] ())
      0
     :: ((string, unit) response + IAzureUserAttributes) \<times> nat \<times> event list) =
     (Inl (ResponseErrorInternal d), 0, [HeaderRead ''x-user-email''])"
proof -
  obtain res w' evs where run:
    "(AzureUserAttributesMiddleware (\<lambda>e. True) notFoundModel
        (mockRequest [(''x-user-email'', ''''), (''x-subscription-id'', ''MySubscriptionId'')] ())
        0
       :: ((string, unit) response + IAzureUserAttributes) \<times> nat \<times> event list) =
     (res, w', evs)"
    by (rule prod_cases3)
  have "header (mockRequest [(''x-user-email'', ''''),
                  (''x-subscription-id'', ''MySubscriptionId'')] ()) ''x-user-email'' = Some []"
    by (simp add: mockRequest_def)
  with AzureUserAttributesMiddleware_email_first [OF run]
  have "(\<exists>d. res = Inl (ResponseErrorInternal d)) \<and> w' = 0 \<and>
        evs = [HeaderRead ''x-user-email'']"
    by blast
  with run show ?thesis by auto
qed

text \<open>
  C7. With a valid email header and a non-empty subscription id header, the middleware
  asks the collaborator once, for that subscription id. When the collaborator finds no
  record the middleware succeeds with an absent service; when the collaborator fails
  with \<open>err\<close> the middleware fails with \<open>ErrorQuery\<close> carrying \<open>err\<close>. The middleware
  fails with \<open>ErrorQuery\<close> exactly when the collaborator fails, and succeeds exactly when
  the collaborator returns, with or without a record.
\<close>

theorem AzureUserAttributesMiddleware_lookup_outcomes:
  assumes "header request ''x-user-email'' = Some e" and "e \<noteq> []" and "isEmail e"
    and "header request ''x-subscription-id'' = Some s" and "s \<noteq> []"
    and "findOneByServiceId serviceModel s w = (out, w')"
  shows "(out = Inr None \<longrightarrow>
            (AzureUserAttributesMiddleware isEmail serviceModel request w
               :: (('e, 'a) response + IAzureUserAttributes) \<times> 'w \<times> event list) =
              (Inr \<lparr> email = e, service = None \<rparr>, w',
               [HeaderRead ''x-user-email'', HeaderRead ''x-subscription-id'',
                FindOneByServiceId s])) \<and>
         (\<forall>err. out = Inl err \<longrightarrow>
            (\<exists>t. (AzureUserAttributesMiddleware isEmail serviceModel request w
                     :: (('e, 'a) response + IAzureUserAttributes) \<times> 'w \<times> event list) =
              (Inl (ResponseErrorQuery t err), w',
               [HeaderRead ''x-user-email'', HeaderRead ''x-subscription-id'',
                FindOneByServiceId s]))) \<and>
         ((\<exists>r. fst (AzureUserAttributesMiddleware isEmail serviceModel request w
                      :: (('e, 'a) response + IAzureUserAttributes) \<times> 'w \<times> event list) =
                  Inl r \<and> kind r = ''IResponseErrorQuery'') \<longleftrightarrow> (\<exists>err. out = Inl err)) \<and>
         ((\<exists>a. fst (AzureUserAttributesMiddleware isEmail serviceModel request w
                      :: (('e, 'a) response + IAzureUserAttributes) \<times> 'w \<times> event list) =
                  Inr a) \<longleftrightarrow> (\<exists>m. out = Inr m))"
  using assms
  by (cases out)
     (auto simp: AzureUserAttributesMiddleware_def toNonEmptyString_def option_filter_def
        Let_def)

theorem AzureUserAttributesMiddleware_lookup_outcomes_witness:
  "(AzureUserAttributesMiddleware (\<lambda>e. True) notFoundModel
      (mockRequest [(''x-user-email'', ''test@example.com''),
                    (''x-subscription-id'', ''MySubscriptionId'')] ())
      0
     :: ((string, unit) response + IAzureUserAttributes) \<times> nat \<times> event list) =
     (Inr \<lparr> email = ''test@example.com'', service = None \<rparr>, 1,
      [HeaderRead ''x-user-email'', HeaderRead ''x-subscription-id'',
       FindOneByServiceId ''MySubscriptionId'']) \<and>
   (\<exists>t. (AzureUserAttributesMiddleware (\<lambda>e. True) failingModel
      (mockRequest [(''x-user-email'', ''test@example.com''),
                    (''x-subscription-id'', ''MySubscriptionId'')] ())
      0
     :: ((string, unit) response + IAzureUserAttributes) \<times> nat \<times> event list) =
     (Inl (ResponseErrorQuery t ''error''), 1,
      [HeaderRead ''x-user-email'', HeaderRead ''x-subscription-id'',
       FindOneByServiceId ''MySubscriptionId'']))"
  using AzureUserAttributesMiddleware_lookup_outcomes
          [where ?'a = unit,
           of "mockRequest [(''x-user-email'', ''test@example.com''),
                    (''x-subscription-id'', ''MySubscriptionId'')] ()"
              "''test@example.com''" "\<lambda>e. True" "''MySubscriptionId''" notFoundModel 0
              "Inr None" 1]
        AzureUserAttributesMiddleware_lookup_outcomes
          [where ?'a = unit,
           of "mockRequest [(''x-user-email'', ''test@example.com''),
                    (''x-subscription-id'', ''MySubscriptionId'')] ()"
              "''test@example.com''" "\<lambda>e. True" "''MySubscriptionId''" failingModel 0
              "Inl ''error''" 1]
  by (simp add: mockRequest_def notFoundModel_def failingModel_def)

section \<open>The services controller\<close>

text \<open>
  C8. A valid public payload passes \<open>ServicePayloadMiddleware\<close>, and for every stored
  record that holds the two sets of the record so built, the public form that
  \<open>retrievedServiceToPublic\<close> gives has the same authorized ranges and the same authorized
  recipients as the payload, as sets: order and repetition apart.
\<close>

theorem service_round_trip:
  assumes "Service_is CIDR_is FiscalCode_is (body request)"
  shows "\<exists>p. (ServicePayloadMiddleware CIDR_is FiscalCode_is request
                :: ('e, 'a) response + IService) = Inr p \<and>
           (\<forall>r. authorizedCIDRs r = authorizedCIDRs p \<and>
                authorizedRecipients r = authorizedRecipients p \<longrightarrow>
                set (authorized_cidrs (retrievedServiceToPublic CIDR_is FiscalCode_is r)) =
                  set (authorized_cidrs (body request)) \<and>
                set (authorized_recipients (retrievedServiceToPublic CIDR_is FiscalCode_is r)) =
                  set (authorized_recipients (body request)))"
  using assms
  by (auto simp: ServicePayloadMiddleware_def Service_is_def retrievedServiceToPublic_def
        toAuthorizedCIDRs_def toAuthorizedRecipients_def set_Set_from list_all_iff Let_def)

theorem service_round_trip_witness:
  "\<exists>p. (ServicePayloadMiddleware (\<lambda>c. c \<noteq> []) (\<lambda>f. length f = 16) (mockRequest [] aPayload)
          :: (unit, unit) response + IService) = Inr p \<and>
       set (authorized_cidrs
              (retrievedServiceToPublic (\<lambda>c. c \<noteq> []) (\<lambda>f. length f = 16)
                 (IService.extend p \<lparr> id_retrieved = ''id'', version_retrieved = 0 \<rparr>))) =
         {''10.0.0.0/24'', ''192.168.1.1''} \<and>
       set (authorized_recipients
              (retrievedServiceToPublic (\<lambda>c. c \<noteq> []) (\<lambda>f. length f = 16)
                 (IService.extend p \<lparr> id_retrieved = ''id'', version_retrieved = 0 \<rparr>))) =
         {''AAABBB01C02D345E''}"
proof -
  have valid: "Service_is (\<lambda>c. c \<noteq> []) (\<lambda>f. length f = 16) (body (mockRequest [] aPayload))"
    by (simp add: Service_is_def mockRequest_def aPayload_def)
  from service_round_trip [where ?'e = unit and ?'a = unit, OF valid]
  obtain p where p:
    "(ServicePayloadMiddleware (\<lambda>c. c \<noteq> []) (\<lambda>f. length f = 16) (mockRequest [] aPayload)
        :: (unit, unit) response + IService) = Inr p"
    and rt: "\<And>r :: IRetrievedService.
      authorizedCIDRs r = authorizedCIDRs p \<and> authorizedRecipients r = authorizedRecipients p \<Longrightarrow>
      set (authorized_cidrs (retrievedServiceToPublic (\<lambda>c. c \<noteq> []) (\<lambda>f. length f = 16) r)) =
        set (authorized_cidrs (body (mockRequest [] aPayload))) \<and>
      set (authorized_recipients (retrievedServiceToPublic (\<lambda>c. c \<noteq> []) (\<lambda>f. length f = 16) r)) =
        set (authorized_recipients (body (mockRequest [] aPayload)))"
    by blast
  have "authorizedCIDRs (IService.extend p \<lparr> id_retrieved = ''id'', version_retrieved = 0 \<rparr>) =
          authorizedCIDRs p \<and>
        authorizedRecipients (IService.extend p \<lparr> id_retrieved = ''id'', version_retrieved = 0 \<rparr>) =
          authorizedRecipients p"
    by (simp add: IService.extend_def)
  from rt [OF this] p show ?thesis
    by (auto simp: mockRequest_def aPayload_def)
qed

text \<open>
  C10. The response of \<open>GetServiceHandler\<close> is decided by the outcome of the one lookup it
  makes: \<open>ErrorQuery\<close> with the error when the lookup fails, \<open>ErrorNotFound\<close> when it
  finds no record, \<open>SuccessJson\<close> of the public form of the record when it finds one, and
  each of the three kinds only in its own case. The world after the handler is the
  world the lookup left, and the handler does not depend on the writing operations of
  the collaborator.
\<close>

theorem GetServiceHandler_outcomes:
  "findOneByServiceId serviceModel sid w = (out, w') \<Longrightarrow>
   GetServiceHandler CIDR_is FiscalCode_is serviceModel auth clientIp userAttributes sid w =
     ((case out of
         Inl e \<Rightarrow> ResponseErrorQuery ''Error while retrieving the service'' e
       | Inr None \<Rightarrow>
           ResponseErrorNotFound ''Service not found''
             ''The service you requested was not found in the system.''
       | Inr (Some v) \<Rightarrow>
           ResponseSuccessJson (retrievedServiceToPublic CIDR_is FiscalCode_is v)), w') \<and>
   (kind (fst (GetServiceHandler CIDR_is FiscalCode_is serviceModel auth clientIp
                 userAttributes sid w)) = ''IResponseErrorQuery'' \<longleftrightarrow> (\<exists>e. out = Inl e)) \<and>
   (kind (fst (GetServiceHandler CIDR_is FiscalCode_is serviceModel auth clientIp
                 userAttributes sid w)) = ''IResponseErrorNotFound'' \<longleftrightarrow> out = Inr None) \<and>
   (kind (fst (GetServiceHandler CIDR_is FiscalCode_is serviceModel auth clientIp
                 userAttributes sid w)) = ''IResponseSuccessJson'' \<longleftrightarrow>
      (\<exists>v. out = Inr (Some v))) \<and>
   GetServiceHandler CIDR_is FiscalCode_is
       (serviceModel\<lparr> create := c, update := u \<rparr>) auth clientIp userAttributes sid w =
     GetServiceHandler CIDR_is FiscalCode_is serviceModel auth clientIp userAttributes sid w"
  by (cases out) (auto simp: GetServiceHandler_def split: option.splits)

theorem GetServiceHandler_outcomes_witness:
  "GetServiceHandler (\<lambda>c. True) (\<lambda>f. True) notFoundModel () () () ''serviceId'' 0 =
     (ResponseErrorNotFound ''Service not found''
        ''The service you requested was not found in the system.'', 1) \<and>
   GetServiceHandler (\<lambda>c. True) (\<lambda>f. True) failingModel () () () ''serviceId'' 0 =
     (ResponseErrorQuery ''Error while retrieving the service'' ''error'', 1)"
  using GetServiceHandler_outcomes
          [of notFoundModel "''serviceId''" 0 "Inr None" 1 "\<lambda>c. True" "\<lambda>f. True" "()" "()" "()"]
        GetServiceHandler_outcomes
          [of failingModel "''serviceId''" 0 "Inl ''error''" 1 "\<lambda>c. True" "\<lambda>f. True" "()" "()" "()"]
  by (simp add: notFoundModel_def failingModel_def)

end
